theory Spec2Isabelle
  imports Complex_Main
begin

section \<open>Values, errors and frames\<close>

text \<open>
  The pipeline of \<^verbatim>\<open>dags/etl\<close> works on JSON documents and on pandas frames.
  A JSON value is a \<open>val\<close>: \<open>PyNone\<close> is JSON \<^verbatim>\<open>null\<close>, \<open>NaN\<close> is the float
  pandas stores where a document has no such key (both are null for \<^verbatim>\<open>isnull\<close>, only
  \<open>PyNone\<close> is falsy), a number is a rational (Python's \<^verbatim>\<open>1\<close> and \<^verbatim>\<open>1.0\<close> are equal
  and are one \<open>Num\<close>), and a dictionary is the list of its items in insertion order,
  which is the order Python iterates it in. A string is a list of characters.
\<close>

datatype val =
    PyNone
  | NaN
  | Str string
  | Num rat
  | Bool bool
  | Lst "val list"
  | Dct "(string \<times> val) list"

text \<open>
  Every exception of the source is a value. \<open>KeyError\<close> carries the keys or column
  labels its message names; \<open>ValueError\<close> and \<open>PrimaryKeyViolationException\<close>
  carry the message; \<open>SystemExit\<close> carries the exit code of \<^verbatim>\<open>sys.exit\<close>.
\<close>

datatype error =
    KeyError "string list"
  | ValueError string
  | TypeError
  | AttributeError
  | UnboundLocalError
  | PrimaryKeyViolationException string
  | RuntimeError
  | SystemExit int

text \<open>
  A frame is the list of its columns in order, each a label with the values of all
  rows. The labels of a frame built from documents are distinct; pandas' behaviour
  on repeated labels is outside this model.
\<close>

type_synonym document = "(string \<times> val) list"
type_synonym frame = "(string \<times> val list) list"

definition columns :: "frame \<Rightarrow> string list" where
  "columns df = map fst df"

text \<open>\<^verbatim>\<open>d[k] = v\<close> on a dictionary and \<^verbatim>\<open>df[c] = series\<close> on a frame: an existing
  key keeps its place, a new one goes last.\<close>

primrec setitem :: "string \<Rightarrow> 'v \<Rightarrow> (string \<times> 'v) list \<Rightarrow> (string \<times> 'v) list" where
  "setitem k v [] = [(k, v)]"
| "setitem k v (p # ps) = (if fst p = k then (k, v) # ps else p # setitem k v ps)"

fun is_dict :: "val \<Rightarrow> bool" where
  "is_dict (Dct d) = True"
| "is_dict v = False"

fun is_list :: "val \<Rightarrow> bool" where
  "is_list (Lst xs) = True"
| "is_list v = False"

definition is_scalar :: "val \<Rightarrow> bool" where
  "is_scalar v = (\<not> is_dict v \<and> \<not> is_list v)"

fun isnull :: "val \<Rightarrow> bool" where
  "isnull PyNone = True"
| "isnull NaN = True"
| "isnull v = False"

fun dict_keys :: "val \<Rightarrow> string list" where
  "dict_keys (Dct d) = map fst d"
| "dict_keys v = []"

text \<open>\<^verbatim>\<open>item[key]\<close>: a dictionary without the key raises \<^verbatim>\<open>KeyError\<close>; a value that
  is no dictionary cannot be indexed by a string.\<close>

fun subscript :: "val \<Rightarrow> string \<Rightarrow> error + val" where
  "subscript (Dct d) key =
     (case map_of d key of None \<Rightarrow> Inl (KeyError [key]) | Some v \<Rightarrow> Inr v)"
| "subscript v key = Inl TypeError"

text \<open>A comprehension or \<^verbatim>\<open>Series.apply\<close> whose body can raise: the first exception
  ends it.\<close>

fun traverse :: "('a \<Rightarrow> error + 'b) \<Rightarrow> 'a list \<Rightarrow> error + 'b list" where
  "traverse f [] = Inr []"
| "traverse f (x # xs) =
     (case f x of
        Inl e \<Rightarrow> Inl e
      | Inr y \<Rightarrow> (case traverse f xs of Inl e \<Rightarrow> Inl e | Inr ys \<Rightarrow> Inr (y # ys)))"

section \<open>Mapper: \<^verbatim>\<open>process_dict_columns\<close> and the \<^verbatim>\<open>$oid\<close> lambda\<close>

text \<open>
  \<^verbatim>\<open>extract_values\<close> (transformation.py, lines 56 to 68). \<^verbatim>\<open>keys\<close> is the union of the
  keys of all items; \<^verbatim>\<open>len(keys) == 1\<close> is read off the list without repetitions.
\<close>

definition extract_values :: "val \<Rightarrow> error + val" where
  "extract_values value =
     (case value of
        Lst items \<Rightarrow>
          if list_all is_dict items then
            (case remdups (concat (map dict_keys items)) of
               [key] \<Rightarrow>
                 (case traverse (\<lambda>item. subscript item key) items of
                    Inl e \<Rightarrow> Inl e
                  | Inr vs \<Rightarrow> Inr (Lst vs))
             | _ \<Rightarrow> Inr value)
          else Inr value
      | _ \<Rightarrow> Inr value)"

text \<open>\<^verbatim>\<open>process_dict_columns\<close> (lines 70 to 76): the frame is updated column by
  column, and a label that is no column raises \<^verbatim>\<open>KeyError\<close>.\<close>

fun process_dict_columns :: "frame \<Rightarrow> string list \<Rightarrow> error + frame" where
  "process_dict_columns df [] = Inr df"
| "process_dict_columns df (column_name # column_names) =
     (case map_of df column_name of
        None \<Rightarrow> Inl (KeyError [column_name])
      | Some col \<Rightarrow>
          (case traverse extract_values col of
             Inl e \<Rightarrow> Inl e
           | Inr col' \<Rightarrow> process_dict_columns (setitem column_name col' df) column_names))"

text \<open>The lambda of line 126:
  \<^verbatim>\<open>x['$oid'] if isinstance(x, dict) and '$oid' in x else None\<close>.\<close>

definition oid_or_none :: "val \<Rightarrow> val" where
  "oid_or_none x =
     (case x of
        Dct d \<Rightarrow> (case map_of d ''$oid'' of Some v \<Rightarrow> v | None \<Rightarrow> PyNone)
      | _ \<Rightarrow> PyNone)"

section \<open>Building frames: \<^verbatim>\<open>pd.DataFrame\<close>, \<^verbatim>\<open>pd.json_normalize\<close>, renaming, selection\<close>

text \<open>Labels in the order of their first appearance.\<close>

definition ordered_unique :: "'a list \<Rightarrow> 'a list" where
  "ordered_unique xs = rev (remdups (rev xs))"

text \<open>
  \<^verbatim>\<open>pd.DataFrame(data)\<close> for a list of dictionaries: one column per key of any
  document, in the order of first appearance; a document without the key gets NaN.
  (The conversion of \<^verbatim>\<open>None\<close> to NaN that pandas performs in numeric columns is
  not modelled: \<open>PyNone\<close> stays.)
\<close>

definition DataFrame :: "document list \<Rightarrow> frame" where
  "DataFrame data =
     map (\<lambda>label. (label, map (\<lambda>d. case map_of d label of Some v \<Rightarrow> v | None \<Rightarrow> NaN) data))
       (ordered_unique (concat (map (map fst) data)))"

text \<open>
  \<^verbatim>\<open>pd.json_normalize(data)\<close> with its default arguments flattens nested
  dictionaries, joining the keys with a dot: the keys whose value is no dictionary come
  first, then the leaves of the nested dictionaries; the flattened records make the frame.
\<close>

fun normalise_json :: "string \<Rightarrow> val \<Rightarrow> (string \<times> val) list" where
  "normalise_json key_string (Dct d) =
     concat (map (\<lambda>(key, value).
       normalise_json (if key_string = [] then key else key_string @ ''.'' @ key) value) d)"
| "normalise_json key_string v = [(key_string, v)]"

definition normalise_json_ordered :: "document \<Rightarrow> document" where
  "normalise_json_ordered d =
     (let top_dict = filter (\<lambda>(k, v). \<not> is_dict v) d;
          nested_dict = normalise_json [] (Dct (filter (\<lambda>(k, v). is_dict v) d))
      in fold (\<lambda>(k, v). setitem k v) nested_dict top_dict)"

definition json_normalize :: "document list \<Rightarrow> frame" where
  "json_normalize data = DataFrame (map normalise_json_ordered data)"

text \<open>
  The two tables of \<^verbatim>\<open>column_mappings.yml\<close>, which the class loads when it is
  defined. The file is not part of the sources, so its content is a parameter. Of a
  collection's mapping, \<open>rename\<close> is the \<^verbatim>\<open>rename\<close> dictionary (empty when the key is
  absent) and \<open>select\<close> is the list the \<^verbatim>\<open>select\<close> string evaluates to, \<open>None\<close> when
  the string is empty and the \<^verbatim>\<open>if select_columns:\<close> is not entered.
\<close>

record mapping_spec =
  rename :: "(string \<times> string) list"
  select :: "string list option"

record column_def =
  name :: string
  ctype :: string
  length_attr :: "int option"

record config =
  column_mappings :: "string \<Rightarrow> mapping_spec"
  schema_definitions :: "(string \<times> column_def list) list"

text \<open>\<^verbatim>\<open>rename_columns\<close> (lines 26 to 40).\<close>

definition rename_columns :: "config \<Rightarrow> frame \<Rightarrow> string \<Rightarrow> frame" where
  "rename_columns cfg df kase =
     (let mappings = rename (column_mappings cfg kase)
      in if mappings \<noteq> []
         then map (\<lambda>(label, col).
                (case map_of mappings label of Some new \<Rightarrow> new | None \<Rightarrow> label, col)) df
         else df)"

text \<open>
  \<^verbatim>\<open>df[keys]\<close> with a list of labels: pandas raises \<^verbatim>\<open>KeyError\<close>, and its message
  names the labels that are no columns of the frame.
\<close>

definition getitem_columns :: "frame \<Rightarrow> string list \<Rightarrow> error + frame" where
  "getitem_columns df keys =
     (case filter (\<lambda>k. k \<notin> set (columns df)) keys of
        [] \<Rightarrow> Inr (map (\<lambda>k. (k, case map_of df k of Some col \<Rightarrow> col | None \<Rightarrow> [])) keys)
      | missing \<Rightarrow> Inl (KeyError missing))"

section \<open>\<^verbatim>\<open>DataValidator\<close>\<close>

definition quoted :: "string \<Rightarrow> string" where
  "quoted s = CHR 0x27 # s @ [CHR 0x27]"

text \<open>
  \<^verbatim>\<open>duplicated\<close> and \<^verbatim>\<open>isin\<close> compare values by equality, for which \<^verbatim>\<open>True\<close> and
  \<^verbatim>\<open>False\<close> are equal to 1 and 0; neither raises on a list or a dictionary.
\<close>

fun py_key :: "val \<Rightarrow> val" where
  "py_key (Bool b) = Num (if b then 1 else 0)"
| "py_key v = v"

text \<open>
  \<^verbatim>\<open>check_empty_or_null_and_raise\<close> (data_validator.py, lines 38 to 64): the body of
  the \<^verbatim>\<open>try\<close>, and the handler that turns every exception into \<^verbatim>\<open>sys.exit(1)\<close>.
\<close>

definition check_empty_or_null_body :: "frame \<Rightarrow> string \<Rightarrow> error + unit" where
  "check_empty_or_null_body df column_name =
     (case map_of df column_name of
        None \<Rightarrow> Inl (KeyError [column_name])
      | Some col \<Rightarrow>
          (let is_null = list_ex isnull col;
               is_empty = list_ex (\<lambda>v. v = Str []) col
           in if is_null \<or> is_empty
              then Inl (PrimaryKeyViolationException
                     (''Primary key violation: Column '' @ quoted column_name @
                      '' contains null or empty values.''))
              else Inr ()))"

definition check_empty_or_null_and_raise :: "frame \<Rightarrow> string \<Rightarrow> error + unit" where
  "check_empty_or_null_and_raise df column_name =
     (case check_empty_or_null_body df column_name of
        Inl e \<Rightarrow> Inl (SystemExit 1)
      | Inr u \<Rightarrow> Inr u)"

text \<open>\<^verbatim>\<open>check_duplicates_and_raise\<close> (lines 88 to 107), in the same two parts.\<close>

definition check_duplicates_body :: "frame \<Rightarrow> string \<Rightarrow> error + unit" where
  "check_duplicates_body df column_name =
     (case map_of df column_name of
        None \<Rightarrow> Inl (KeyError [column_name])
      | Some col \<Rightarrow>
          if \<not> distinct (map py_key col)
          then Inl (PrimaryKeyViolationException
                 (''Primary key violation: Column '' @ quoted column_name @
                  '' contains duplicate values.''))
          else Inr ())"

definition check_duplicates_and_raise :: "frame \<Rightarrow> string \<Rightarrow> error + unit" where
  "check_duplicates_and_raise df column_name =
     (case check_duplicates_body df column_name of
        Inl e \<Rightarrow> Inl (SystemExit 1)
      | Inr u \<Rightarrow> Inr u)"

section \<open>\<^verbatim>\<open>DataQuality\<close>\<close>

text \<open>
  Three functions the checks call belong to pandas and to Python, not to the
  repository, and are parameters of the model: \<open>pd_to_datetime x\<close> is
  \<^verbatim>\<open>pd.to_datetime(x, errors="coerce")\<close> on a value that is neither null nor the empty
  string (a null result is NaT), \<open>pd_to_numeric x\<close> is what
  \<^verbatim>\<open>pd.to_numeric(..., errors="coerce")\<close> makes of one value, and \<open>py_repr x\<close> is
  \<^verbatim>\<open>str(x)\<close> for a value that is no string.
\<close>

record library =
  pd_to_datetime :: "val \<Rightarrow> error + val"
  pd_to_numeric :: "val \<Rightarrow> error + val"
  py_repr :: "val \<Rightarrow> string"

text \<open>\<^verbatim>\<open>pd.to_datetime\<close> returns \<^verbatim>\<open>None\<close> for \<^verbatim>\<open>None\<close> and NaT for NaN and for the
  empty string, whatever the format of the other values.\<close>

definition to_datetime_coerce :: "library \<Rightarrow> val \<Rightarrow> error + val" where
  "to_datetime_coerce lib x =
     (if isnull x \<or> x = Str [] then Inr NaN else pd_to_datetime lib x)"

definition py_str :: "library \<Rightarrow> val \<Rightarrow> string" where
  "py_str lib x = (case x of Str s \<Rightarrow> s | _ \<Rightarrow> py_repr lib x)"

fun show_nat :: "nat \<Rightarrow> string" where
  "show_nat n =
     (if n < 10 then [char_of (48 + n)] else show_nat (n div 10) @ [char_of (48 + n mod 10)])"

definition show_int :: "int \<Rightarrow> string" where
  "show_int i = (if i < 0 then CHR ''-'' # show_nat (nat (- i)) else show_nat (nat i))"

text \<open>
  Python passes the frame by reference, so each check is modelled with the frame it
  leaves behind: the result is the outcome (an exception or \<^verbatim>\<open>None\<close>) and the frame
  after the call.

  \<^verbatim>\<open>validate_date_column\<close> (data_quality.py, lines 25 to 47).
\<close>

definition validate_date_column :: "library \<Rightarrow> frame \<Rightarrow> string \<Rightarrow> (error + unit) \<times> frame" where
  "validate_date_column lib df column_name =
     (case map_of df column_name of
        None \<Rightarrow> (Inl (KeyError [column_name]), df)
      | Some col \<Rightarrow>
          (case traverse (to_datetime_coerce lib) col of
             Inl e \<Rightarrow> (Inl e, df)
           | Inr converted \<Rightarrow>
               if list_ex isnull converted
               then (Inl (ValueError (''Invalid dates found in column '' @ quoted column_name @ ''.'')), df)
               else (Inr (), df)))"

text \<open>\<^verbatim>\<open>validate_id_column\<close> (lines 49 to 79).\<close>

definition validate_id_column ::
  "library \<Rightarrow> frame \<Rightarrow> string \<Rightarrow> int \<Rightarrow> (error + unit) \<times> frame" where
  "validate_id_column lib df column_name max_length =
     (case map_of df column_name of
        None \<Rightarrow> (Inl (KeyError [column_name]), df)
      | Some col \<Rightarrow>
          if list_ex (\<lambda>x. isnull x \<or> x = Str []) col
          then (Inl (ValueError
                  (''Null or empty values found in ID column '' @ quoted column_name @ ''.'')), df)
          else if list_ex (\<lambda>x. int (length (py_str lib x)) > max_length) col
          then (Inl (ValueError
                  (''Values exceeding '' @ show_int max_length @
                   '' characters found in ID column '' @ quoted column_name @ ''.'')), df)
          else if list_ex (\<lambda>x. int (length (py_str lib x)) < max_length) col
          then (Inl (ValueError
                  (''Values less than '' @ show_int max_length @
                   '' characters found in ID column '' @ quoted column_name @ ''.'')), df)
          else (Inr (), df))"

text \<open>
  \<^verbatim>\<open>validate_column_types\<close> (lines 81 to 111). Line 98 assigns the filled column to
  the frame before anything is tested.
\<close>

definition fillna0 :: "val \<Rightarrow> val" where
  "fillna0 v = (if isnull v then Num 0 else v)"

definition validate_column_types ::
  "library \<Rightarrow> frame \<Rightarrow> string \<Rightarrow> string \<Rightarrow> (error + unit) \<times> frame" where
  "validate_column_types lib df column_name expected_type =
     (case map_of df column_name of
        None \<Rightarrow> (Inl (KeyError [column_name]), df)
      | Some col \<Rightarrow>
          if expected_type = ''float'' then
            (let df' = setitem column_name (map fillna0 col) df
             in case traverse (pd_to_numeric lib) (map fillna0 col) of
                  Inl e \<Rightarrow> (Inl e, df')
                | Inr numbers \<Rightarrow>
                    if \<not> list_all (\<lambda>v. \<not> isnull v) numbers
                    then (Inl (ValueError
                            (''Column '' @ quoted column_name @ '' contains non-float values.'')), df')
                    else (Inr (), df'))
          else if expected_type = ''boolean'' then
            (if \<not> list_all (\<lambda>v. py_key v \<in> {Num 1, Num 0}) col
             then (Inl (ValueError
                     (''Column '' @ quoted column_name @ '' contains non-boolean values.'')), df)
             else (Inr (), df))
          else (Inr (), df))"

text \<open>\<^verbatim>\<open>str.lower\<close> on the ASCII letters, and the substring test \<^verbatim>\<open>p in s\<close>.\<close>

definition lower_char :: "char \<Rightarrow> char" where
  "lower_char c =
     (let n = (of_char c :: nat) in if 65 \<le> n \<and> n \<le> 90 then char_of (n + 32) else c)"

definition lower :: "string \<Rightarrow> string" where
  "lower s = map lower_char s"

fun contains :: "string \<Rightarrow> string \<Rightarrow> bool" where
  "contains p [] = (p = [])"
| "contains p (c # cs) = (take (length p) (c # cs) = p \<or> contains p cs)"

text \<open>
  \<^verbatim>\<open>check_data_quality_dataframe\<close> (lines 113 to 144). \<open>check_column\<close> is the body of
  the loop, three \<^verbatim>\<open>if\<close> statements in a row for one column definition.
\<close>

definition check_column :: "library \<Rightarrow> frame \<Rightarrow> column_def \<Rightarrow> (error + unit) \<times> frame" where
  "check_column lib df cd =
     (let column_name = name cd; column_type = lower (ctype cd) in
      case (if contains ''date'' column_type
            then validate_date_column lib df column_name else (Inr (), df)) of
        (Inl e, df1) \<Rightarrow> (Inl e, df1)
      | (Inr u, df1) \<Rightarrow>
         (case (if column_type = ''varchar''
                then (case length_attr cd of
                        Some max_length \<Rightarrow> validate_id_column lib df1 column_name max_length
                      | None \<Rightarrow> (Inr (), df1))
                else (Inr (), df1)) of
            (Inl e, df2) \<Rightarrow> (Inl e, df2)
          | (Inr u, df2) \<Rightarrow>
              if column_type \<in> {''float'', ''boolean''}
              then validate_column_types lib df2 column_name column_type
              else (Inr (), df2)))"

fun check_columns :: "library \<Rightarrow> frame \<Rightarrow> column_def list \<Rightarrow> (error + unit) \<times> frame" where
  "check_columns lib df [] = (Inr (), df)"
| "check_columns lib df (cd # schema) =
     (case check_column lib df cd of
        (Inl e, df') \<Rightarrow> (Inl e, df')
      | (Inr u, df') \<Rightarrow> check_columns lib df' schema)"

definition check_data_quality_dataframe ::
  "library \<Rightarrow> (string \<times> column_def list) list \<Rightarrow> frame \<Rightarrow> string \<Rightarrow> (error + unit) \<times> frame" where
  "check_data_quality_dataframe lib schema_defs df table_name =
     (case map_of schema_defs table_name of
        None \<Rightarrow> (Inl (ValueError (''No schema found for table '' @ quoted table_name @ ''.'')), df)
      | Some schema \<Rightarrow>
          if schema = []
          then (Inl (ValueError (''No schema found for table '' @ quoted table_name @ ''.'')), df)
          else check_columns lib df schema)"

section \<open>\<^verbatim>\<open>TransformationFactory\<close>\<close>

text \<open>
  The \<^verbatim>\<open>try\<close> block that \<^verbatim>\<open>transform_clients\<close>, \<^verbatim>\<open>transform_suppliers\<close>,
  \<^verbatim>\<open>transform_sonar_runs\<close> and \<^verbatim>\<open>transform_sonar_results\<close> share, with the key
  column and the table as arguments. \<^verbatim>\<open>except SystemExit\<close> prints the exit code and
  goes on to the \<^verbatim>\<open>return\<close>; any other exception leaves the function. The value is
  the frame the function then returns.
\<close>

definition validation_block ::
  "library \<Rightarrow> config \<Rightarrow> frame \<Rightarrow> string \<Rightarrow> string \<Rightarrow> error + frame" where
  "validation_block lib cfg df key table =
     (case check_empty_or_null_and_raise df key of
        Inl (SystemExit code) \<Rightarrow> Inr df
      | Inl e \<Rightarrow> Inl e
      | Inr u \<Rightarrow>
         (case check_duplicates_and_raise df key of
            Inl (SystemExit code) \<Rightarrow> Inr df
          | Inl e \<Rightarrow> Inl e
          | Inr u \<Rightarrow>
             (case check_data_quality_dataframe lib (schema_definitions cfg) df table of
                (Inl (SystemExit code), df') \<Rightarrow> Inr df'
              | (Inl e, df') \<Rightarrow> Inl e
              | (Inr u, df') \<Rightarrow> Inr df')))"

text \<open>
  The selection and what follows it. With an empty \<^verbatim>\<open>select\<close> string the frame
  variable is never bound, and its first use raises \<^verbatim>\<open>UnboundLocalError\<close>.
\<close>

definition select_and_validate ::
  "library \<Rightarrow> config \<Rightarrow> frame \<Rightarrow> string \<Rightarrow> string \<Rightarrow> error + frame" where
  "select_and_validate lib cfg df kase key =
     (case select (column_mappings cfg kase) of
        None \<Rightarrow> Inl UnboundLocalError
      | Some select_columns \<Rightarrow>
          (case getitem_columns df select_columns of
             Inl e \<Rightarrow> Inl e
           | Inr selected \<Rightarrow> validation_block lib cfg selected key kase))"

text \<open>\<^verbatim>\<open>transform_clients\<close> (lines 79 to 103).\<close>

definition transform_clients :: "library \<Rightarrow> config \<Rightarrow> document list \<Rightarrow> error + frame" where
  "transform_clients lib cfg data =
     (let df = rename_columns cfg (json_normalize data) ''clients'' in
      case process_dict_columns df [''suppliers'', ''sonar_dates''] of
        Inl e \<Rightarrow> Inl e
      | Inr df' \<Rightarrow> select_and_validate lib cfg df' ''clients'' ''client_id'')"

text \<open>
  \<^verbatim>\<open>transform_supplier_group\<close> (lines 106 to 128). \<open>truthy\<close> is Python's truth value
  (NaN is a non-zero float, so it is true); \<open>dict_items\<close> is \<^verbatim>\<open>.items()\<close>, which
  only a dictionary has; \<open>iterate\<close> is what a \<^verbatim>\<open>for\<close> loop runs over.
\<close>

fun truthy :: "val \<Rightarrow> bool" where
  "truthy PyNone = False"
| "truthy NaN = True"
| "truthy (Str s) = (s \<noteq> [])"
| "truthy (Num n) = (n \<noteq> 0)"
| "truthy (Bool b) = b"
| "truthy (Lst xs) = (xs \<noteq> [])"
| "truthy (Dct d) = (d \<noteq> [])"

fun dict_items :: "val \<Rightarrow> error + (string \<times> val) list" where
  "dict_items (Dct d) = Inr d"
| "dict_items v = Inl AttributeError"

fun iterate :: "val \<Rightarrow> error + val list" where
  "iterate (Lst xs) = Inr xs"
| "iterate (Dct d) = Inr (map (\<lambda>(k, v). Str k) d)"
| "iterate (Str s) = Inr (map (\<lambda>c. Str [c]) s)"
| "iterate v = Inl TypeError"

definition group_rows :: "val \<Rightarrow> string \<times> val \<Rightarrow> error + document list" where
  "group_rows client_id item =
     (case item of (group_name, suppliers) \<Rightarrow>
        (case iterate suppliers of
           Inl e \<Rightarrow> Inl e
         | Inr members \<Rightarrow>
             traverse (\<lambda>supplier.
               case subscript supplier ''$oid'' of
                 Inl e \<Rightarrow> Inl e
               | Inr oid \<Rightarrow> Inr [(''client_id'', client_id),
                                 (''group_name'', Str group_name),
                                 (''supplier_id'', oid)]) members))"

definition document_rows :: "val \<times> val \<Rightarrow> error + document list" where
  "document_rows row =
     (case row of (client_id, supplier_groups) \<Rightarrow>
        if truthy supplier_groups then
          (case dict_items supplier_groups of
             Inl e \<Rightarrow> Inl e
           | Inr groups \<Rightarrow>
               (case traverse (group_rows client_id) groups of
                  Inl e \<Rightarrow> Inl e
                | Inr rs \<Rightarrow> Inr (concat rs)))
        else Inr [])"

definition transform_supplier_group :: "config \<Rightarrow> document list \<Rightarrow> error + frame" where
  "transform_supplier_group cfg data =
     (let df = rename_columns cfg (DataFrame data) ''supplier_group'' in
      case getitem_columns df [''client_id'', ''supplier_groups''] of
        Inl e \<Rightarrow> Inl e
      | Inr two \<Rightarrow>
          (let client_ids = (case map_of two ''client_id'' of Some col \<Rightarrow> col | None \<Rightarrow> []);
               groups = (case map_of two ''supplier_groups'' of Some col \<Rightarrow> col | None \<Rightarrow> [])
           in case traverse document_rows (zip client_ids groups) of
                Inl e \<Rightarrow> Inl e
              | Inr rs \<Rightarrow>
                  (let out = DataFrame (concat rs) in
                   case map_of out ''client_id'' of
                     None \<Rightarrow> Inl (KeyError [''client_id''])
                   | Some col \<Rightarrow> Inr (setitem ''client_id'' (map oid_or_none col) out))))"

text \<open>\<^verbatim>\<open>transform_suppliers\<close> (lines 131 to 152).\<close>

definition transform_suppliers :: "library \<Rightarrow> config \<Rightarrow> document list \<Rightarrow> error + frame" where
  "transform_suppliers lib cfg data =
     (let df = rename_columns cfg (json_normalize data) ''suppliers''
      in select_and_validate lib cfg df ''suppliers'' ''supplier_id'')"

text \<open>\<^verbatim>\<open>transform_sonar_runs\<close> (lines 155 to 183); \<open>oid_list\<close> is the lambda of lines
  162 and 165.\<close>

definition oid_list :: "val \<Rightarrow> error + val" where
  "oid_list x =
     (case x of
        Lst items \<Rightarrow>
          (case traverse (\<lambda>item. subscript item ''$oid'') items of
             Inl e \<Rightarrow> Inl e
           | Inr vs \<Rightarrow> Inr (Lst vs))
      | _ \<Rightarrow> Inr (Lst []))"

definition apply_oid_list :: "frame \<Rightarrow> string \<Rightarrow> error + frame" where
  "apply_oid_list df column_name =
     (case map_of df column_name of
        None \<Rightarrow> Inl (KeyError [column_name])
      | Some col \<Rightarrow>
          (case traverse oid_list col of
             Inl e \<Rightarrow> Inl e
           | Inr col' \<Rightarrow> Inr (setitem column_name col' df)))"

definition transform_sonar_runs :: "library \<Rightarrow> config \<Rightarrow> document list \<Rightarrow> error + frame" where
  "transform_sonar_runs lib cfg data =
     (case apply_oid_list (json_normalize data) ''supplier_ids'' of
        Inl e \<Rightarrow> Inl e
      | Inr df1 \<Rightarrow>
          (case apply_oid_list df1 ''client_part_ids'' of
             Inl e \<Rightarrow> Inl e
           | Inr df2 \<Rightarrow>
               select_and_validate lib cfg (rename_columns cfg df2 ''sonar_runs'')
                 ''sonar_runs'' ''sonar_run_id''))"

text \<open>\<^verbatim>\<open>transform_sonar_results\<close> (lines 186 to 207).\<close>

definition transform_sonar_results :: "library \<Rightarrow> config \<Rightarrow> document list \<Rightarrow> error + frame" where
  "transform_sonar_results lib cfg data =
     (let df = rename_columns cfg (json_normalize data) ''sonar_results''
      in select_and_validate lib cfg df ''sonar_results'' ''sonar_result_id'')"

text \<open>\<^verbatim>\<open>transform\<close> (lines 209 to 235).\<close>

definition transform :: "library \<Rightarrow> config \<Rightarrow> document list \<Rightarrow> string \<Rightarrow> error + frame" where
  "transform lib cfg data kase =
     (if kase = ''clients'' then transform_clients lib cfg data
      else if kase = ''supplier_group'' then transform_supplier_group cfg data
      else if kase = ''suppliers'' then transform_suppliers lib cfg data
      else if kase = ''sonar_runs'' then transform_sonar_runs lib cfg data
      else if kase = ''sonar_results'' then transform_sonar_results lib cfg data
      else Inl (ValueError (''Unknown transformation case: '' @ kase)))"

text \<open>
  The end of \<^verbatim>\<open>run_etl\<close> (data_pipeline_mongodb_to_postgres.py, lines 68 to 82):
  the frame \<^verbatim>\<open>transform\<close> returns is handed to the Loader's
  \<^verbatim>\<open>validate_and_insert_data\<close>, here the parameter \<open>load\<close>; an \<^verbatim>\<open>Exception\<close> of
  either is raised again as \<^verbatim>\<open>RuntimeError\<close>. Creating the tables and reading the
  file come before and are not modelled.
\<close>

definition run_etl ::
  "library \<Rightarrow> config \<Rightarrow> (frame \<Rightarrow> string \<Rightarrow> error + 'sink) \<Rightarrow> document list \<Rightarrow> string \<Rightarrow> error + 'sink" where
  "run_etl lib cfg load data collection_name =
     (case transform lib cfg data collection_name of
        Inl (SystemExit code) \<Rightarrow> Inl (SystemExit code)
      | Inl e \<Rightarrow> Inl RuntimeError
      | Inr transformed_df \<Rightarrow>
          (case load transformed_df collection_name of
             Inl (SystemExit code) \<Rightarrow> Inl (SystemExit code)
           | Inl e \<Rightarrow> Inl RuntimeError
           | Inr s \<Rightarrow> Inr s))"

section \<open>The supplier group table as the specification describes it\<close>

text \<open>
  The specification's wording of the supplier group table, to compare
  \<open>transform_supplier_group\<close> with: one row per (client, group, member) triple, by
  document, then by group in the order of the mapping, then by member in the order of
  the list, the client and the member unwrapped from their \<^verbatim>\<open>$oid\<close> mappings.
  \<open>cell d label\<close> is the value of a field of a document, NaN where it has none.
\<close>

definition cell :: "document \<Rightarrow> string \<Rightarrow> val" where
  "cell d label = (case map_of d label of Some v \<Rightarrow> v | None \<Rightarrow> NaN)"

definition item_members :: "string \<times> val \<Rightarrow> (string \<times> val) list" where
  "item_members item =
     (case item of (group_name, members) \<Rightarrow>
        (case members of
           Lst ms \<Rightarrow> map (\<lambda>m. (group_name, oid_or_none m)) ms
         | _ \<Rightarrow> []))"

definition group_members :: "val \<Rightarrow> (string \<times> val) list" where
  "group_members supplier_groups =
     (case supplier_groups of
        Dct groups \<Rightarrow> concat (map item_members groups)
      | _ \<Rightarrow> [])"

definition expected_rows :: "document list \<Rightarrow> (val \<times> string \<times> val) list" where
  "expected_rows data =
     concat (map (\<lambda>d. map (\<lambda>(group_name, member).
                          (oid_or_none (cell d ''client_id''), group_name, member))
                     (group_members (cell d ''supplier_groups''))) data)"

text \<open>The same triples with the client as the document holds it, before the
  \<^verbatim>\<open>$oid\<close> lambda is applied to the column.\<close>

definition raw_rows :: "document list \<Rightarrow> (val \<times> string \<times> val) list" where
  "raw_rows data =
     concat (map (\<lambda>d. map (\<lambda>(g, m). (cell d ''client_id'', g, m))
        (group_members (cell d ''supplier_groups''))) data)"

definition row_of :: "val \<times> string \<times> val \<Rightarrow> document" where
  "row_of r = (case r of (client, group_name, member) \<Rightarrow>
     [(''client_id'', client), (''group_name'', Str group_name), (''supplier_id'', member)])"

definition rows_frame :: "(val \<times> string \<times> val) list \<Rightarrow> frame" where
  "rows_frame rows =
     [(''client_id'', map (\<lambda>(client, group_name, member). client) rows),
      (''group_name'', map (\<lambda>(client, group_name, member). Str group_name) rows),
      (''supplier_id'', map (\<lambda>(client, group_name, member). member) rows)]"

text \<open>
  The documents the expansion is defined for: \<^verbatim>\<open>client_id\<close> and
  \<^verbatim>\<open>supplier_groups\<close> are present, and \<^verbatim>\<open>supplier_groups\<close> is \<^verbatim>\<open>null\<close> or a
  mapping (possibly empty) from group names to lists of mappings that hold \<^verbatim>\<open>$oid\<close>.
\<close>

definition wf_member :: "val \<Rightarrow> bool" where
  "wf_member m = (case m of Dct d \<Rightarrow> map_of d ''$oid'' \<noteq> None | _ \<Rightarrow> False)"

definition wf_groups :: "val \<Rightarrow> bool" where
  "wf_groups supplier_groups =
     (case supplier_groups of
        PyNone \<Rightarrow> True
      | Dct groups \<Rightarrow>
          list_all (\<lambda>(group_name, members).
            case members of Lst ms \<Rightarrow> list_all wf_member ms | _ \<Rightarrow> False) groups
      | _ \<Rightarrow> False)"

definition wf_document :: "document \<Rightarrow> bool" where
  "wf_document d =
     (map_of d ''client_id'' \<noteq> None \<and>
      (case map_of d ''supplier_groups'' of Some sg \<Rightarrow> wf_groups sg | None \<Rightarrow> False))"

section \<open>Inputs for the examples\<close>

text \<open>
  An instance of the library on which the examples run. It reads the ISO dates and
  timestamps of the test data (\<^verbatim>\<open>2023-01-01\<close>, \<^verbatim>\<open>2023-01-01T12:00:00Z\<close>) and coerces
  every other string to NaT; numbers and truth values are numeric.
\<close>

definition is_digit :: "char \<Rightarrow> bool" where
  "is_digit c = (let n = (of_char c :: nat) in 48 \<le> n \<and> n \<le> 57)"

definition iso_date :: "string \<Rightarrow> bool" where
  "iso_date s =
     (length s = 10 \<and> list_all is_digit (take 4 s) \<and> take 1 (drop 4 s) = ''-'' \<and>
      list_all is_digit (take 2 (drop 5 s)) \<and> take 1 (drop 7 s) = ''-'' \<and>
      list_all is_digit (drop 8 s))"

definition iso_time :: "string \<Rightarrow> bool" where
  "iso_time s =
     (length s = 10 \<and> take 1 s = ''T'' \<and>
      list_all is_digit (take 2 (drop 1 s)) \<and> take 1 (drop 3 s) = '':'' \<and>
      list_all is_digit (take 2 (drop 4 s)) \<and> take 1 (drop 6 s) = '':'' \<and>
      list_all is_digit (take 2 (drop 7 s)) \<and> drop 9 s = ''Z'')"

definition sample_library :: library where
  "sample_library =
     \<lparr> pd_to_datetime = (\<lambda>x. case x of
           Str s \<Rightarrow> if iso_date s \<or> (iso_date (take 10 s) \<and> iso_time (drop 10 s))
                    then Inr (Str s) else Inr NaN
         | _ \<Rightarrow> Inl TypeError),
       pd_to_numeric = (\<lambda>x. case x of
           Num q \<Rightarrow> Inr (Num q)
         | Bool b \<Rightarrow> Inr (py_key (Bool b))
         | _ \<Rightarrow> Inr NaN),
       py_repr = (\<lambda>x. case x of
           Bool b \<Rightarrow> if b then ''True'' else ''False''
         | PyNone \<Rightarrow> ''None''
         | _ \<Rightarrow> ''nan'') \<rparr>"

text \<open>
  A configuration that agrees with the frames \<^verbatim>\<open>test_etl.py\<close> expects for the
  clients and suppliers collections.
\<close>

definition sample_config :: config where
  "sample_config =
     \<lparr> column_mappings = (\<lambda>kase.
         if kase = ''clients'' then
           \<lparr> rename = [(''_id.$oid'', ''client_id''),
                       (''contract_start.$date'', ''contract_start_date''),
                       (''contract_end.$date'', ''contract_end_date'')],
             select = Some [''client_id'', ''name'', ''contract_start_date'',
                            ''contract_end_date'', ''sonar_dates'', ''suppliers''] \<rparr>
         else if kase = ''suppliers'' then
           \<lparr> rename = [(''_id.$oid'', ''supplier_id'')],
             select = Some [''supplier_id'', ''name'', ''priority''] \<rparr>
         else \<lparr> rename = [], select = None \<rparr>),
       schema_definitions =
         [(''clients'',
             [\<lparr> name = ''client_id'', ctype = ''VARCHAR'', length_attr = Some 24 \<rparr>,
              \<lparr> name = ''contract_start_date'', ctype = ''DATE'', length_attr = None \<rparr>]),
          (''suppliers'',
             [\<lparr> name = ''supplier_id'', ctype = ''VARCHAR'', length_attr = Some 24 \<rparr>,
              \<lparr> name = ''priority'', ctype = ''FLOAT'', length_attr = None \<rparr>])] \<rparr>"

text \<open>\<^verbatim>\<open>clients_input\<close> and \<^verbatim>\<open>clients_expected\<close> of \<^verbatim>\<open>test_etl.py\<close> (lines 17 to
  44): two clients with the same \<^verbatim>\<open>_id.$oid\<close>.\<close>

definition clients_input :: "document list" where
  "clients_input =
     [[(''_id.$oid'', Str ''6086c347701bfd9e246ae133''),
       (''name'', Str ''John Doe''),
       (''contract_start.$date'', Str ''2023-01-01''),
       (''contract_end.$date'', Str ''2023-12-31''),
       (''sonar_dates'', Lst [Str ''2023-02-01'', Str ''2023-05-01'']),
       (''suppliers'', Lst [Str ''Supplier1'', Str ''Supplier2''])],
      [(''_id.$oid'', Str ''6086c347701bfd9e246ae133''),
       (''name'', Str ''Jane Smith''),
       (''contract_start.$date'', Str ''2023-02-01''),
       (''contract_end.$date'', Str ''2023-11-30''),
       (''sonar_dates'', Lst [Str ''2023-03-01'', Str ''2023-06-01'']),
       (''suppliers'', Lst [Str ''Supplier3''])]]"

definition clients_expected :: frame where
  "clients_expected =
     [(''client_id'', [Str ''6086c347701bfd9e246ae133'', Str ''6086c347701bfd9e246ae133'']),
      (''name'', [Str ''John Doe'', Str ''Jane Smith'']),
      (''contract_start_date'', [Str ''2023-01-01'', Str ''2023-02-01'']),
      (''contract_end_date'', [Str ''2023-12-31'', Str ''2023-11-30'']),
      (''sonar_dates'', [Lst [Str ''2023-02-01'', Str ''2023-05-01''],
                         Lst [Str ''2023-03-01'', Str ''2023-06-01'']]),
      (''suppliers'', [Lst [Str ''Supplier1'', Str ''Supplier2''], Lst [Str ''Supplier3'']])]"

text \<open>The supplier group document of the specification's example, and a client
  without groups.\<close>

definition group_example :: document where
  "group_example =
     [(''client_id'', Dct [(''$oid'', Str ''C1'')]),
      (''supplier_groups'',
         Dct [(''g1'', Lst [Dct [(''$oid'', Str ''101'')], Dct [(''$oid'', Str ''102'')]]),
              (''g2'', Lst [Dct [(''$oid'', Str ''103'')]])])]"

definition no_groups_example :: document where
  "no_groups_example =
     [(''client_id'', Dct [(''$oid'', Str ''C2'')]), (''supplier_groups'', Dct [])]"

definition group_example_expected :: frame where
  "group_example_expected =
     [(''client_id'', [Str ''C1'', Str ''C1'', Str ''C1'']),
      (''group_name'', [Str ''g1'', Str ''g1'', Str ''g2'']),
      (''supplier_id'', [Str ''101'', Str ''102'', Str ''103''])]"

section \<open>Helper lemmas\<close>

lemma traverse_subscript_singletons:
  "traverse (\<lambda>item. subscript item k) (map (\<lambda>s. Dct [(k, s)]) xs) = Inr xs"
  by (induction xs) simp_all

lemma remdups_replicate_key:
  "xs \<noteq> [] \<Longrightarrow> remdups (concat (map dict_keys (map (\<lambda>s. Dct [(k, s)]) xs))) = [k]"
proof (induction xs)
  case Nil
  then show ?case by simp
next
  case (Cons x xs)
  show ?case
  proof (cases "xs = []")
    case True
    then show ?thesis by simp
  next
    case False
    with Cons.IH have ih: "remdups (concat (map dict_keys (map (\<lambda>s. Dct [(k, s)]) xs))) = [k]"
      by simp
    from False have "k \<in> set (concat (map dict_keys (map (\<lambda>s. Dct [(k, s)]) xs)))"
      by (cases xs) simp_all
    with ih show ?thesis by simp
  qed
qed

lemma list_all_is_dict_singletons: "list_all is_dict (map (\<lambda>s. Dct [(k, s)]) xs)"
  by (induction xs) simp_all

lemma extract_values_scalars:
  assumes "list_all is_scalar xs"
  shows "extract_values (Lst xs) = Inr (Lst xs)"
proof (cases xs)
  case Nil
  then show ?thesis by (simp add: extract_values_def)
next
  case (Cons x ys)
  with assms have "\<not> is_dict x" by (simp add: is_scalar_def)
  with Cons show ?thesis by (simp add: extract_values_def)
qed

lemma traverse_Inr_set:
  "traverse f xs = Inr ys \<Longrightarrow>
     (\<forall>x\<in>set xs. \<exists>y\<in>set ys. f x = Inr y) \<and> (\<forall>y\<in>set ys. \<exists>x\<in>set xs. f x = Inr y)"
proof (induction xs arbitrary: ys)
  case Nil
  then show ?case by auto
next
  case (Cons x xs)
  then obtain y zs where fx: "f x = Inr y" and tr: "traverse f xs = Inr zs" and ys: "ys = y # zs"
    by (auto split: sum.splits)
  from Cons.IH [OF tr] fx ys show ?case by auto
qed

lemma traverse_total:
  "(\<forall>x\<in>set xs. \<exists>y. f x = Inr y) \<Longrightarrow> \<exists>ys. traverse f xs = Inr ys"
proof (induction xs)
  case Nil
  then show ?case by simp
next
  case (Cons x xs)
  then obtain y ys where "f x = Inr y" and "traverse f xs = Inr ys" by auto
  then show ?case by simp
qed

lemma traverse_map:
  "(\<forall>x\<in>set xs. f x = Inr (g x)) \<Longrightarrow> traverse f xs = Inr (map g xs)"
  by (induction xs) simp_all

lemma to_datetime_coerce_ok:
  "(to_datetime_coerce lib x = Inr t \<and> \<not> isnull t) =
   (\<not> isnull x \<and> x \<noteq> Str [] \<and> pd_to_datetime lib x = Inr t \<and> \<not> isnull t)"
  by (auto simp: to_datetime_coerce_def)

lemma validate_date_column_ok_iff:
  assumes "map_of df c = Some col"
  shows "(fst (validate_date_column lib df c) = Inr ()) =
         (\<forall>x\<in>set col. \<exists>t. to_datetime_coerce lib x = Inr t \<and> \<not> isnull t)"
proof
  assume ok: "fst (validate_date_column lib df c) = Inr ()"
  then obtain ts where ts: "traverse (to_datetime_coerce lib) col = Inr ts"
    and nn: "\<not> list_ex isnull ts"
    using assms by (auto simp: validate_date_column_def split: sum.splits if_splits)
  note rel = traverse_Inr_set [OF ts]
  show "\<forall>x\<in>set col. \<exists>t. to_datetime_coerce lib x = Inr t \<and> \<not> isnull t"
  proof
    fix x assume "x \<in> set col"
    with rel obtain t where "t \<in> set ts" and "to_datetime_coerce lib x = Inr t"
      by blast
    with nn show "\<exists>t. to_datetime_coerce lib x = Inr t \<and> \<not> isnull t"
      by (auto simp: list_ex_iff)
  qed
next
  assume all: "\<forall>x\<in>set col. \<exists>t. to_datetime_coerce lib x = Inr t \<and> \<not> isnull t"
  then have "\<forall>x\<in>set col. \<exists>t. to_datetime_coerce lib x = Inr t" by blast
  then obtain ts where ts: "traverse (to_datetime_coerce lib) col = Inr ts"
    using traverse_total by blast
  note rel = traverse_Inr_set [OF ts]
  have "\<not> list_ex isnull ts"
  proof
    assume "list_ex isnull ts"
    then obtain t where "t \<in> set ts" and "isnull t" by (auto simp: list_ex_iff)
    with rel obtain x where "x \<in> set col" and "to_datetime_coerce lib x = Inr t"
      by blast
    with all \<open>isnull t\<close> show False by auto
  qed
  with ts assms show "fst (validate_date_column lib df c) = Inr ()"
    by (simp add: validate_date_column_def)
qed

lemma validate_date_column_invalid:
  assumes "map_of df c = Some col"
    and tot: "\<forall>x\<in>set col. \<exists>t. to_datetime_coerce lib x = Inr t"
    and bad: "\<exists>x\<in>set col. \<exists>t. to_datetime_coerce lib x = Inr t \<and> isnull t"
  shows "fst (validate_date_column lib df c) =
           Inl (ValueError (''Invalid dates found in column '' @ quoted c @ ''.''))"
proof -
  from tot obtain ts where ts: "traverse (to_datetime_coerce lib) col = Inr ts"
    using traverse_total by blast
  note rel = traverse_Inr_set [OF ts]
  from bad obtain x t where "x \<in> set col" and "to_datetime_coerce lib x = Inr t" and "isnull t"
    by blast
  with rel have "list_ex isnull ts"
    by (fastforce simp: list_ex_iff)
  with ts assms show ?thesis by (simp add: validate_date_column_def)
qed

lemma sample_to_datetime:
  "pd_to_datetime sample_library (Str ''2023-01-01'') = Inr (Str ''2023-01-01'')"
  "pd_to_datetime sample_library (Str ''2023-01-01T12:00:00Z'') = Inr (Str ''2023-01-01T12:00:00Z'')"
  "pd_to_datetime sample_library (Str ''not-a-date'') = Inr NaN"
  by (simp_all add: sample_library_def iso_date_def iso_time_def is_digit_def)

lemma map_of_setitem_same: "map_of (setitem k v df) k = Some v"
  by (induction df) auto

lemma fillna0_not_null: "\<not> isnull (fillna0 v)"
  by (cases v) (simp_all add: fillna0_def)

lemma fillna0_changes_null: "isnull v \<Longrightarrow> fillna0 v \<noteq> v"
  by (cases v) (simp_all add: fillna0_def)

lemma map_fillna0_neq:
  assumes "\<exists>v\<in>set col. isnull v"
  shows "map fillna0 col \<noteq> col"
proof
  assume eq: "map fillna0 col = col"
  from assms obtain v where vin: "v \<in> set col" and vn: "isnull v" by blast
  from eq have "\<forall>x\<in>set col. fillna0 x = x" by (simp add: map_idI map_eq_conv [symmetric])
  with vin have "fillna0 v = v" by blast
  with fillna0_changes_null [OF vn] show False by simp
qed

lemma snd_validate_float:
  assumes "map_of df c = Some col"
  shows "snd (validate_column_types lib df c ''float'') = setitem c (map fillna0 col) df"
  using assms by (simp add: validate_column_types_def Let_def split: sum.splits)

lemma validation_block_changes_frame:
  "validation_block sample_library sample_config
     [(''supplier_id'', [Str ''6086c347701bfd9e246ae133'']), (''name'', [Str ''Supplier A'']),
      (''priority'', [PyNone])] ''supplier_id'' ''suppliers'' =
   Inr [(''supplier_id'', [Str ''6086c347701bfd9e246ae133'']), (''name'', [Str ''Supplier A'']),
      (''priority'', [Num 0])]"
  by code_simp

lemma check_duplicates_exit:
  assumes "map_of df key = Some col" and "\<not> distinct (map py_key col)"
  shows "check_duplicates_and_raise df key = Inl (SystemExit 1)"
  using assms by (simp add: check_duplicates_and_raise_def check_duplicates_body_def)

lemma check_empty_or_null_cases:
  "check_empty_or_null_and_raise df key = Inl (SystemExit 1) \<or>
   check_empty_or_null_and_raise df key = Inr ()"
  by (simp add: check_empty_or_null_and_raise_def split: sum.splits)

lemma validation_block_duplicates:
  assumes "map_of df key = Some col" and "\<not> distinct (map py_key col)"
  shows "validation_block lib cfg df key table = Inr df"
proof -
  note dup = check_duplicates_exit [OF assms]
  from check_empty_or_null_cases [of df key] show ?thesis
  proof
    assume "check_empty_or_null_and_raise df key = Inl (SystemExit 1)"
    then show ?thesis by (simp add: validation_block_def)
  next
    assume "check_empty_or_null_and_raise df key = Inr ()"
    with dup show ?thesis by (simp add: validation_block_def)
  qed
qed

lemma set_ordered_unique: "set (ordered_unique xs) = set xs"
  by (simp add: ordered_unique_def)

lemma map_of_tabulate:
  "map_of (map (\<lambda>k. (k, f k)) ks) k = (if k \<in> set ks then Some (f k) else None)"
  by (induction ks) auto

lemma columns_DataFrame: "set (columns (DataFrame data)) = (\<Union>d\<in>set data. fst ` set d)"
  by (auto simp: columns_def DataFrame_def set_ordered_unique comp_def)

lemma map_of_DataFrame:
  "map_of (DataFrame data) k =
     (if k \<in> set (columns (DataFrame data))
      then Some (map (\<lambda>d. case map_of d k of Some v \<Rightarrow> v | None \<Rightarrow> NaN) data) else None)"
  by (simp add: columns_def DataFrame_def map_of_tabulate comp_def)

lemma getitem_columns_present:
  assumes "set keys \<subseteq> set (columns df)"
  shows "getitem_columns df keys =
           Inr (map (\<lambda>k. (k, case map_of df k of Some col \<Rightarrow> col | None \<Rightarrow> [])) keys)"
proof -
  from assms have "filter (\<lambda>k. k \<notin> set (columns df)) keys = []"
    by (auto simp: filter_empty_conv)
  then show ?thesis by (simp add: getitem_columns_def)
qed

lemma getitem_columns_missing:
  assumes "\<not> set keys \<subseteq> set (columns df)"
  shows "getitem_columns df keys = Inl (KeyError (filter (\<lambda>k. k \<notin> set (columns df)) keys))"
proof -
  from assms have "filter (\<lambda>k. k \<notin> set (columns df)) keys \<noteq> []"
    by (auto simp: filter_empty_conv)
  then show ?thesis by (simp add: getitem_columns_def split: list.splits)
qed

lemma traverse_map_map:
  "(\<forall>x\<in>set xs. f (h x) = Inr (g x)) \<Longrightarrow> traverse f (map h xs) = Inr (map g xs)"
  by (induction xs) simp_all

lemma remdups_append_subset: "set as \<subseteq> set bs \<Longrightarrow> remdups (as @ bs) = remdups bs"
  by (induction as) auto

lemma ordered_unique_append_subset:
  assumes "distinct ks" and "set ys \<subseteq> set ks"
  shows "ordered_unique (ks @ ys) = ks"
proof -
  from assms(2) have "remdups (rev ys @ rev ks) = remdups (rev ks)"
    by (intro remdups_append_subset) simp
  also from assms(1) have "remdups (rev ks) = rev ks"
    by (simp add: distinct_remdups_id)
  finally show ?thesis by (simp add: ordered_unique_def)
qed

lemma ordered_unique_repeat:
  assumes "distinct ks" and "ts \<noteq> []"
  shows "ordered_unique (concat (map (\<lambda>t. ks) ts)) = ks"
proof -
  from assms(2) obtain t ts' where ts: "ts = t # ts'" by (cases ts) auto
  have "set (concat (map (\<lambda>t. ks) ts')) \<subseteq> set ks" by auto
  with assms(1) show ?thesis unfolding ts by (simp add: ordered_unique_append_subset)
qed

lemma DataFrame_rows:
  assumes "rows \<noteq> []"
  shows "DataFrame (map row_of rows) = rows_frame rows"
proof -
  have keys: "map (map fst) (map row_of rows) = map (\<lambda>t. [''client_id'', ''group_name'', ''supplier_id'']) rows"
    by (simp add: row_of_def split_def)
  have "ordered_unique (concat (map (map fst) (map row_of rows))) =
          [''client_id'', ''group_name'', ''supplier_id'']"
    unfolding keys by (rule ordered_unique_repeat [OF _ assms]) simp
  then show ?thesis
    by (simp add: DataFrame_def rows_frame_def row_of_def split_def comp_def)
qed

lemma subscript_wf_member:
  "wf_member m \<Longrightarrow> subscript m ''$oid'' = Inr (oid_or_none m)"
  by (cases m) (auto simp: wf_member_def oid_or_none_def)

lemma group_rows_wf:
  assumes "list_all wf_member ms"
  shows "group_rows client (g, Lst ms) = Inr (map (\<lambda>m. row_of (client, g, oid_or_none m)) ms)"
proof -
  have "traverse (\<lambda>supplier.
               case subscript supplier ''$oid'' of
                 Inl e \<Rightarrow> Inl e
               | Inr oid \<Rightarrow> Inr [(''client_id'', client),
                                 (''group_name'', Str g),
                                 (''supplier_id'', oid)]) ms
        = Inr (map (\<lambda>m. row_of (client, g, oid_or_none m)) ms)"
    using assms by (intro traverse_map) (simp add: list_all_iff subscript_wf_member row_of_def)
  then show ?thesis by (simp add: group_rows_def)
qed

lemma group_rows_wf_item:
  assumes "case item of (g, members) \<Rightarrow> (case members of Lst ms \<Rightarrow> list_all wf_member ms | _ \<Rightarrow> False)"
  shows "group_rows client item = Inr (map (\<lambda>(g, m). row_of (client, g, m)) (item_members item))"
proof -
  obtain g members where item: "item = (g, members)" by (cases item)
  with assms obtain ms where ms: "members = Lst ms" and wf: "list_all wf_member ms"
    by (cases members) simp_all
  from group_rows_wf [OF wf] show ?thesis by (simp add: item ms item_members_def comp_def)
qed

lemma document_rows_wf:
  assumes "wf_groups sg"
  shows "document_rows (client, sg) =
           Inr (map (\<lambda>(g, m). row_of (client, g, m)) (group_members sg))"
proof (cases sg)
  case (Dct groups)
  with assms have wf: "\<forall>item\<in>set groups.
      (case item of (g, members) \<Rightarrow> (case members of Lst ms \<Rightarrow> list_all wf_member ms | _ \<Rightarrow> False))"
    by (simp add: wf_groups_def list_all_iff)
  then have tr: "traverse (group_rows client) groups =
      Inr (map (\<lambda>item. map (\<lambda>(g, m). row_of (client, g, m)) (item_members item)) groups)"
    by (intro traverse_map) (simp add: group_rows_wf_item)
  have flat: "concat (map (\<lambda>item. map (\<lambda>(g, m). row_of (client, g, m)) (item_members item)) groups) =
        map (\<lambda>(g, m). row_of (client, g, m)) (group_members (Dct groups))"
    by (simp add: group_members_def map_concat comp_def)
  show ?thesis
  proof (cases "groups = []")
    case True
    with Dct show ?thesis by (simp add: document_rows_def group_members_def)
  next
    case False
    with Dct tr flat show ?thesis by (simp add: document_rows_def)
  qed
qed (use assms in \<open>simp_all add: wf_groups_def document_rows_def group_members_def\<close>)

lemma rename_lookup:
  assumes "k \<notin> fst ` set r" and "k \<notin> snd ` set r"
  shows "map_of (map (\<lambda>(label, col). (case map_of r label of Some new \<Rightarrow> new | None \<Rightarrow> label, col)) df) k
           = map_of df k"
proof (induction df)
  case Nil
  then show ?case by simp
next
  case (Cons p df)
  obtain l col where p: "p = (l, col)" by (cases p)
  have "(case map_of r l of Some new \<Rightarrow> new | None \<Rightarrow> l) = k \<longleftrightarrow> l = k"
  proof (cases "map_of r l")
    case None
    then show ?thesis by simp
  next
    case (Some new)
    then have "(l, new) \<in> set r" by (rule map_of_SomeD)
    with assms have "new \<noteq> k" and "l \<noteq> k" by force+
    with Some show ?thesis by simp
  qed
  with Cons.IH show ?case by (auto simp: p)
qed

lemma rename_columns_lookup:
  assumes "k \<notin> fst ` set (rename (column_mappings cfg kase))"
    and "k \<notin> snd ` set (rename (column_mappings cfg kase))"
  shows "map_of (rename_columns cfg df kase) k = map_of df k"
  by (simp add: rename_columns_def Let_def rename_lookup [OF assms])

lemma in_columns_iff: "k \<in> set (columns df) \<longleftrightarrow> map_of df k \<noteq> None"
  by (simp add: columns_def map_of_eq_None_iff)

lemma zip_map_same: "zip (map f xs) (map g xs) = map (\<lambda>x. (f x, g x)) xs"
  by (induction xs) simp_all

lemma expected_rows_raw:
  "expected_rows data = map (\<lambda>(c, g, m). (oid_or_none c, g, m)) (raw_rows data)"
  by (simp add: expected_rows_def raw_rows_def map_concat comp_def split_def)

lemma rows_frame_client:
  "map_of (rows_frame rows) ''client_id'' = Some (map (\<lambda>(client, group_name, member). client) rows)"
  by (simp add: rows_frame_def)

lemma setitem_rows_frame:
  "setitem ''client_id'' (map oid_or_none (map (\<lambda>(client, group_name, member). client) rows))
     (rows_frame rows) = rows_frame (map (\<lambda>(c, g, m). (oid_or_none c, g, m)) rows)"
  by (simp add: rows_frame_def comp_def split_def)

lemma supplier_groups_all_absent:
  "transform_supplier_group sample_config [[(''client_id'', Dct [(''$oid'', Str ''C2'')])]] =
     Inl (KeyError [''supplier_groups''])"
  by code_simp

lemma supplier_groups_all_empty:
  "transform_supplier_group sample_config [no_groups_example] = Inl (KeyError [''client_id''])"
  by code_simp


section \<open>Claims\<close>

text \<open>
  C7, as amended. The lambda returns the value under \<^verbatim>\<open>$oid\<close> of every dictionary
  that has this key, whatever other keys it has, and \<^verbatim>\<open>None\<close> for a dictionary
  without the key and for every value that is no dictionary.
\<close>

theorem oid_or_none_spec:
  "(map_of d ''$oid'' = Some v \<longrightarrow> oid_or_none (Dct d) = v) \<and>
   (''$oid'' \<notin> set (map fst d) \<longrightarrow> oid_or_none (Dct d) = PyNone) \<and>
   (\<not> is_dict x \<longrightarrow> oid_or_none x = PyNone)"
proof (intro conjI impI)
  assume "map_of d ''$oid'' = Some v"
  then show "oid_or_none (Dct d) = v" by (simp add: oid_or_none_def)
next
  assume "''$oid'' \<notin> set (map fst d)"
  then have "map_of d ''$oid'' = None" by (simp add: map_of_eq_None_iff)
  then show "oid_or_none (Dct d) = PyNone" by (simp add: oid_or_none_def)
next
  assume "\<not> is_dict x"
  then show "oid_or_none x = PyNone" by (cases x) (simp_all add: oid_or_none_def)
qed

theorem oid_or_none_spec_witness:
  "oid_or_none (Dct [(''$oid'', Str ''C1'')]) = Str ''C1'' \<and>
   oid_or_none (Dct [(''name'', Str ''C1'')]) = PyNone \<and>
   oid_or_none (Str ''C1'') = PyNone"
  using oid_or_none_spec [of "[(''$oid'', Str ''C1'')]" "Str ''C1''" "Str ''C1''"]
        oid_or_none_spec [of "[(''name'', Str ''C1'')]" "Str ''C1''" "Str ''C1''"]
  by simp

text \<open>
  C7 as the specification states it fails: a dictionary that holds \<^verbatim>\<open>$oid\<close> next to
  another key is not mapped to \<^verbatim>\<open>None\<close>.
\<close>

theorem oid_or_none_other_keys_counterexample:
  "oid_or_none (Dct [(''$oid'', Str ''C1''), (''name'', Str ''x'')]) \<noteq> PyNone"
  by (simp add: oid_or_none_def)

text \<open>
  C9. A list of scalars is returned as it is by \<^verbatim>\<open>extract_values\<close>; so a list of
  one-key wrappers around scalars, once flattened, is left unchanged by a second
  application.
\<close>

theorem extract_values_idempotent_on_flattened:
  assumes "list_all is_scalar xs"
  shows "extract_values (Lst xs) = Inr (Lst xs) \<and>
         (xs \<noteq> [] \<longrightarrow> extract_values (Lst (map (\<lambda>s. Dct [(k, s)]) xs)) = Inr (Lst xs))"
proof (intro conjI impI)
  show "extract_values (Lst xs) = Inr (Lst xs)"
    using assms by (rule extract_values_scalars)
next
  assume ne: "xs \<noteq> []"
  show "extract_values (Lst (map (\<lambda>s. Dct [(k, s)]) xs)) = Inr (Lst xs)"
    unfolding extract_values_def
    by (simp add: list_all_is_dict_singletons remdups_replicate_key [OF ne]
        traverse_subscript_singletons del: map_map)
qed

theorem extract_values_idempotent_on_flattened_witness:
  "extract_values (Lst [Dct [(''$oid'', Str ''101'')], Dct [(''$oid'', Str ''102'')]])
     = Inr (Lst [Str ''101'', Str ''102'']) \<and>
   extract_values (Lst [Str ''101'', Str ''102'']) = Inr (Lst [Str ''101'', Str ''102''])"
  using extract_values_idempotent_on_flattened [of "[Str ''101'', Str ''102'']" "''$oid''"]
  by (simp add: is_scalar_def)

text \<open>
  C8. A name that is none of the five collections raises \<^verbatim>\<open>ValueError\<close> (the
  specification's UnknownCaseError) with the name in the message; each of the five
  names runs that collection's function.
\<close>

theorem transform_dispatch:
  "(kase \<notin> {''clients'', ''supplier_group'', ''suppliers'', ''sonar_runs'', ''sonar_results''} \<longrightarrow>
      transform lib cfg data kase = Inl (ValueError (''Unknown transformation case: '' @ kase))) \<and>
   transform lib cfg data ''clients'' = transform_clients lib cfg data \<and>
   transform lib cfg data ''supplier_group'' = transform_supplier_group cfg data \<and>
   transform lib cfg data ''suppliers'' = transform_suppliers lib cfg data \<and>
   transform lib cfg data ''sonar_runs'' = transform_sonar_runs lib cfg data \<and>
   transform lib cfg data ''sonar_results'' = transform_sonar_results lib cfg data"
  by (simp add: transform_def)

theorem transform_dispatch_witness:
  "transform sample_library sample_config clients_input ''orders'' =
     Inl (ValueError ''Unknown transformation case: orders'')"
  using transform_dispatch [of "''orders''" sample_library sample_config clients_input]
  by simp

text \<open>
  C4. On a column of the frame, \<^verbatim>\<open>validate_id_column\<close> passes exactly when no
  value is null or the empty string and \<^verbatim>\<open>len(str(x))\<close> is \<open>n\<close> for every value; a
  null or empty value, a value of length \<open>n + 1\<close> and a value of length \<open>n - 1\<close> each
  make it raise \<^verbatim>\<open>ValueError\<close>.
\<close>

theorem validate_id_column_exact_length:
  assumes "map_of df c = Some col"
  shows "(fst (validate_id_column lib df c n) = Inr ()) =
           (\<forall>x\<in>set col. \<not> isnull x \<and> x \<noteq> Str [] \<and> int (length (py_str lib x)) = n) \<and>
         ((\<exists>x\<in>set col. isnull x \<or> x = Str []) \<longrightarrow>
            fst (validate_id_column lib df c n) =
              Inl (ValueError (''Null or empty values found in ID column '' @ quoted c @ ''.''))) \<and>
         ((\<exists>x\<in>set col. int (length (py_str lib x)) = n + 1) \<longrightarrow>
            (\<exists>m. fst (validate_id_column lib df c n) = Inl (ValueError m))) \<and>
         ((\<exists>x\<in>set col. int (length (py_str lib x)) = n - 1) \<longrightarrow>
            (\<exists>m. fst (validate_id_column lib df c n) = Inl (ValueError m)))"
proof (intro conjI impI)
  show "(fst (validate_id_column lib df c n) = Inr ()) =
           (\<forall>x\<in>set col. \<not> isnull x \<and> x \<noteq> Str [] \<and> int (length (py_str lib x)) = n)"
    using assms
    by (auto simp: validate_id_column_def list_ex_iff not_less intro: order_antisym)
next
  assume "\<exists>x\<in>set col. isnull x \<or> x = Str []"
  then show "fst (validate_id_column lib df c n) =
      Inl (ValueError (''Null or empty values found in ID column '' @ quoted c @ ''.''))"
    using assms by (auto simp: validate_id_column_def list_ex_iff)
next
  assume "\<exists>x\<in>set col. int (length (py_str lib x)) = n + 1"
  then obtain x where "x \<in> set col" and "int (length (py_str lib x)) = n + 1" by blast
  then have "x \<in> set col \<and> int (length (py_str lib x)) > n" by simp
  then have "\<exists>x\<in>set col. int (length (py_str lib x)) > n" by blast
  then show "\<exists>m. fst (validate_id_column lib df c n) = Inl (ValueError m)"
    using assms by (simp add: validate_id_column_def list_ex_iff)
next
  assume "\<exists>x\<in>set col. int (length (py_str lib x)) = n - 1"
  then obtain x where "x \<in> set col" and "int (length (py_str lib x)) = n - 1" by blast
  then have "x \<in> set col \<and> int (length (py_str lib x)) < n" by simp
  then have "\<exists>x\<in>set col. int (length (py_str lib x)) < n" by blast
  then show "\<exists>m. fst (validate_id_column lib df c n) = Inl (ValueError m)"
    using assms by (simp add: validate_id_column_def list_ex_iff)
qed

theorem validate_id_column_exact_length_witness:
  "fst (validate_id_column sample_library [(''id'', [Str ''abc'', Str ''xyz''])] ''id'' 3) = Inr () \<and>
   (\<exists>m. fst (validate_id_column sample_library [(''id'', [Str ''abc'', Str ''wxyz''])] ''id'' 3) = Inl (ValueError m)) \<and>
   (\<exists>m. fst (validate_id_column sample_library [(''id'', [Str ''abc'', Str ''yz''])] ''id'' 3) = Inl (ValueError m)) \<and>
   fst (validate_id_column sample_library [(''id'', [Str ''abc'', PyNone])] ''id'' 3) =
     Inl (ValueError ''Null or empty values found in ID column 'id'.'')"
  using validate_id_column_exact_length [of "[(''id'', [Str ''abc'', Str ''xyz''])]" "''id''" "[Str ''abc'', Str ''xyz'']" sample_library 3]
        validate_id_column_exact_length [of "[(''id'', [Str ''abc'', Str ''wxyz''])]" "''id''" "[Str ''abc'', Str ''wxyz'']" sample_library 3]
        validate_id_column_exact_length [of "[(''id'', [Str ''abc'', Str ''yz''])]" "''id''" "[Str ''abc'', Str ''yz'']" sample_library 3]
        validate_id_column_exact_length [of "[(''id'', [Str ''abc'', PyNone])]" "''id''" "[Str ''abc'', PyNone]" sample_library 3]
  by (simp add: py_str_def quoted_def)

text \<open>
  C6. On a column of the frame, \<^verbatim>\<open>validate_date_column\<close> passes exactly when every
  value is neither null nor the empty string and \<^verbatim>\<open>pd.to_datetime\<close> converts it to a
  timestamp. When no conversion raises and some value is null, empty or coerced to NaT,
  it raises \<^verbatim>\<open>ValueError\<close> (the specification's InvalidDateError) with the column in
  the message. A null or empty value never passes: there is no exemption. What parses
  is decided by pandas, the parameter \<open>pd_to_datetime\<close>; for the instance
  \<open>sample_library\<close> the example below runs the dates of the specification.
\<close>

theorem validate_date_column_spec:
  assumes "map_of df c = Some col"
  shows "(fst (validate_date_column lib df c) = Inr ()) =
           (\<forall>x\<in>set col. \<not> isnull x \<and> x \<noteq> Str [] \<and>
              (\<exists>t. pd_to_datetime lib x = Inr t \<and> \<not> isnull t)) \<and>
         ((\<forall>x\<in>set col. isnull x \<or> x = Str [] \<or> (\<exists>t. pd_to_datetime lib x = Inr t)) \<and>
          (\<exists>x\<in>set col. isnull x \<or> x = Str [] \<or> (\<exists>t. pd_to_datetime lib x = Inr t \<and> isnull t)) \<longrightarrow>
            fst (validate_date_column lib df c) =
              Inl (ValueError (''Invalid dates found in column '' @ quoted c @ ''.''))) \<and>
         ((\<exists>x\<in>set col. isnull x \<or> x = Str []) \<longrightarrow> fst (validate_date_column lib df c) \<noteq> Inr ())"
proof (intro conjI impI)
  show "(fst (validate_date_column lib df c) = Inr ()) =
           (\<forall>x\<in>set col. \<not> isnull x \<and> x \<noteq> Str [] \<and>
              (\<exists>t. pd_to_datetime lib x = Inr t \<and> \<not> isnull t))"
    by (simp add: validate_date_column_ok_iff [OF assms] to_datetime_coerce_ok)
next
  assume h: "(\<forall>x\<in>set col. isnull x \<or> x = Str [] \<or> (\<exists>t. pd_to_datetime lib x = Inr t)) \<and>
          (\<exists>x\<in>set col. isnull x \<or> x = Str [] \<or> (\<exists>t. pd_to_datetime lib x = Inr t \<and> isnull t))"
  from h have h1: "\<forall>x\<in>set col. isnull x \<or> x = Str [] \<or> (\<exists>t. pd_to_datetime lib x = Inr t)"
    by (rule conjunct1)
  from h have h2: "\<exists>x\<in>set col. isnull x \<or> x = Str [] \<or> (\<exists>t. pd_to_datetime lib x = Inr t \<and> isnull t)"
    by (rule conjunct2)
  have tot: "\<forall>x\<in>set col. \<exists>t. to_datetime_coerce lib x = Inr t"
  proof
    fix x assume "x \<in> set col"
    with h1 have "isnull x \<or> x = Str [] \<or> (\<exists>t. pd_to_datetime lib x = Inr t)" by (rule bspec)
    then show "\<exists>t. to_datetime_coerce lib x = Inr t"
      by (cases "isnull x \<or> x = Str []") (simp_all add: to_datetime_coerce_def)
  qed
  from h2 obtain x where xin: "x \<in> set col"
    and xbad: "isnull x \<or> x = Str [] \<or> (\<exists>t. pd_to_datetime lib x = Inr t \<and> isnull t)" ..
  from xbad have "\<exists>t. to_datetime_coerce lib x = Inr t \<and> isnull t"
    by (cases "isnull x \<or> x = Str []") (simp_all add: to_datetime_coerce_def)
  with xin have bad: "\<exists>x\<in>set col. \<exists>t. to_datetime_coerce lib x = Inr t \<and> isnull t" ..
  show "fst (validate_date_column lib df c) =
              Inl (ValueError (''Invalid dates found in column '' @ quoted c @ ''.''))"
    by (rule validate_date_column_invalid [OF assms tot bad])
next
  assume "\<exists>x\<in>set col. isnull x \<or> x = Str []"
  then show "fst (validate_date_column lib df c) \<noteq> Inr ()"
    by (auto simp: validate_date_column_ok_iff [OF assms] to_datetime_coerce_def)
qed

theorem validate_date_column_spec_witness:
  "fst (validate_date_column sample_library
          [(''d'', [Str ''2023-01-01'', Str ''2023-01-01T12:00:00Z''])] ''d'') = Inr () \<and>
   fst (validate_date_column sample_library [(''d'', [Str ''2023-01-01'', Str ''not-a-date''])] ''d'') =
     Inl (ValueError ''Invalid dates found in column 'd'.'') \<and>
   fst (validate_date_column sample_library [(''d'', [Str ''2023-01-01'', PyNone])] ''d'') =
     Inl (ValueError ''Invalid dates found in column 'd'.'') \<and>
   fst (validate_date_column sample_library [(''d'', [Str ''2023-01-01'', Str []])] ''d'') \<noteq> Inr ()"
proof -
  have a: "fst (validate_date_column sample_library
          [(''d'', [Str ''2023-01-01'', Str ''2023-01-01T12:00:00Z''])] ''d'') = Inr ()"
    using validate_date_column_spec [of "[(''d'', [Str ''2023-01-01'', Str ''2023-01-01T12:00:00Z''])]" "''d''"
            "[Str ''2023-01-01'', Str ''2023-01-01T12:00:00Z'']" sample_library]
    by (simp add: sample_to_datetime)
  have b: "fst (validate_date_column sample_library [(''d'', [Str ''2023-01-01'', Str ''not-a-date''])] ''d'') =
     Inl (ValueError ''Invalid dates found in column 'd'.'')"
    using validate_date_column_spec [of "[(''d'', [Str ''2023-01-01'', Str ''not-a-date''])]" "''d''"
            "[Str ''2023-01-01'', Str ''not-a-date'']" sample_library]
    by (simp add: sample_to_datetime quoted_def)
  have c: "fst (validate_date_column sample_library [(''d'', [Str ''2023-01-01'', PyNone])] ''d'') =
     Inl (ValueError ''Invalid dates found in column 'd'.'')"
    using validate_date_column_spec [of "[(''d'', [Str ''2023-01-01'', PyNone])]" "''d''"
            "[Str ''2023-01-01'', PyNone]" sample_library]
    by (simp add: sample_to_datetime quoted_def)
  have d: "fst (validate_date_column sample_library [(''d'', [Str ''2023-01-01'', Str []])] ''d'') \<noteq> Inr ()"
    using validate_date_column_spec [of "[(''d'', [Str ''2023-01-01'', Str []])]" "''d''"
            "[Str ''2023-01-01'', Str []]" sample_library]
    by simp
  from a b c d show ?thesis by simp
qed

text \<open>
  C10. \<^verbatim>\<open>validate_column_types\<close> with type \<^verbatim>\<open>float\<close> leaves the caller's frame
  with the column's nulls replaced by 0, whether or not it then raises; if the column
  held a null, the frame after the call is not the frame before it. The date check,
  the id check and the type check for \<^verbatim>\<open>boolean\<close> and \<^verbatim>\<open>varchar\<close> leave the frame as
  it was. (\<open>validation_block_changes_frame\<close> runs the whole validation of a suppliers
  table: the frame that is returned differs from the one that entered.)
\<close>

theorem float_check_fills_nulls_in_place:
  assumes "map_of df c = Some col"
  shows "snd (validate_column_types lib df c ''float'') = setitem c (map fillna0 col) df \<and>
         map_of (snd (validate_column_types lib df c ''float'')) c = Some (map fillna0 col) \<and>
         list_all (\<lambda>v. \<not> isnull v) (map fillna0 col) \<and>
         ((\<exists>v\<in>set col. isnull v) \<longrightarrow> snd (validate_column_types lib df c ''float'') \<noteq> df) \<and>
         snd (validate_date_column lib df c) = df \<and>
         snd (validate_id_column lib df c n) = df \<and>
         snd (validate_column_types lib df c ''boolean'') = df \<and>
         snd (validate_column_types lib df c ''varchar'') = df"
proof (intro conjI impI)
  show "snd (validate_column_types lib df c ''float'') = setitem c (map fillna0 col) df"
    by (rule snd_validate_float [OF assms])
  show "map_of (snd (validate_column_types lib df c ''float'')) c = Some (map fillna0 col)"
    by (simp add: snd_validate_float [OF assms] map_of_setitem_same)
  show "list_all (\<lambda>v. \<not> isnull v) (map fillna0 col)"
    by (simp add: list_all_iff fillna0_not_null)
  show "snd (validate_date_column lib df c) = df"
    using assms by (simp add: validate_date_column_def split: sum.splits)
  show "snd (validate_id_column lib df c n) = df"
    using assms by (simp add: validate_id_column_def)
  show "snd (validate_column_types lib df c ''boolean'') = df"
    using assms by (simp add: validate_column_types_def)
  show "snd (validate_column_types lib df c ''varchar'') = df"
    using assms by (simp add: validate_column_types_def)
next
  assume nulls: "\<exists>v\<in>set col. isnull v"
  show "snd (validate_column_types lib df c ''float'') \<noteq> df"
  proof
    assume "snd (validate_column_types lib df c ''float'') = df"
    then have "map_of (setitem c (map fillna0 col) df) c = map_of df c"
      by (simp add: snd_validate_float [OF assms])
    with assms have "map fillna0 col = col" by (simp add: map_of_setitem_same)
    with map_fillna0_neq [OF nulls] show False by simp
  qed
qed

theorem float_check_fills_nulls_in_place_witness:
  "map_of [(''supplier_id'', [Str ''S1'', Str ''S2'']), (''priority'', [Num 2, PyNone])] ''priority'' =
     Some [Num 2, PyNone] \<and>
   snd (validate_column_types sample_library
      [(''supplier_id'', [Str ''S1'', Str ''S2'']), (''priority'', [Num 2, PyNone])] ''priority'' ''float'') =
     [(''supplier_id'', [Str ''S1'', Str ''S2'']), (''priority'', [Num 2, Num 0])] \<and>
   snd (validate_column_types sample_library
      [(''supplier_id'', [Str ''S1'', Str ''S2'']), (''priority'', [Num 2, PyNone])] ''priority'' ''float'') \<noteq>
     [(''supplier_id'', [Str ''S1'', Str ''S2'']), (''priority'', [Num 2, PyNone])]"
  using float_check_fills_nulls_in_place [of
      "[(''supplier_id'', [Str ''S1'', Str ''S2'']), (''priority'', [Num 2, PyNone])]"
      "''priority''" "[Num 2, PyNone]" sample_library 0]
  by (simp add: fillna0_def)

text \<open>
  C5. \<^verbatim>\<open>process_dict_columns\<close> on a field whose list holds a one-key dictionary and
  an empty dictionary: the union of the keys has one element, so the list is taken
  for a list of wrappers, and \<^verbatim>\<open>item[key]\<close> raises \<^verbatim>\<open>KeyError\<close> on the empty
  dictionary. The value is not of the shape to flatten and is not passed through.
\<close>

theorem process_dict_columns_empty_item:
  "process_dict_columns [(''suppliers'', [Lst [Dct [(''$oid'', Str ''101'')], Dct []]])] [''suppliers'']
     = Inl (KeyError [''$oid''])"
  by (simp add: extract_values_def)


text \<open>
  C1, as amended. When the selected clients table has a repeated \<^verbatim>\<open>client_id\<close>,
  \<^verbatim>\<open>check_duplicates_and_raise\<close> ends in \<^verbatim>\<open>sys.exit(1)\<close> (raised for the
  \<^verbatim>\<open>PrimaryKeyViolationException\<close> of its body);
  \<^verbatim>\<open>transform_clients\<close> catches the \<^verbatim>\<open>SystemExit\<close> of the key checks and returns
  the selected table, and \<^verbatim>\<open>run_etl\<close> hands that table to the Loader.
\<close>

theorem duplicate_client_id_reaches_loader:
  assumes "process_dict_columns (rename_columns cfg (json_normalize data) ''clients'')
             [''suppliers'', ''sonar_dates''] = Inr df"
    and "select (column_mappings cfg ''clients'') = Some cols"
    and "getitem_columns df cols = Inr client_df"
    and "map_of client_df ''client_id'' = Some col"
    and "\<not> distinct (map py_key col)"
  shows "check_duplicates_and_raise client_df ''client_id'' = Inl (SystemExit 1) \<and>
         check_duplicates_body client_df ''client_id'' =
           Inl (PrimaryKeyViolationException
             (''Primary key violation: Column '' @ quoted ''client_id'' @
              '' contains duplicate values.'')) \<and>
         transform lib cfg data ''clients'' = Inr client_df \<and>
         run_etl lib cfg load data ''clients'' =
           (case load client_df ''clients'' of
              Inl (SystemExit code) \<Rightarrow> Inl (SystemExit code)
            | Inl e \<Rightarrow> Inl RuntimeError
            | Inr s \<Rightarrow> Inr s)"
proof -
  have vb: "validation_block lib cfg client_df ''client_id'' ''clients'' = Inr client_df"
    by (rule validation_block_duplicates [OF assms(4) assms(5)])
  have tc: "transform_clients lib cfg data = Inr client_df"
    using assms(1,2,3) vb by (simp add: transform_clients_def select_and_validate_def)
  then have tr: "transform lib cfg data ''clients'' = Inr client_df"
    by (simp add: transform_def)
  have body: "check_duplicates_body client_df ''client_id'' =
           Inl (PrimaryKeyViolationException
             (''Primary key violation: Column '' @ quoted ''client_id'' @
              '' contains duplicate values.''))"
    using assms(4,5) by (simp add: check_duplicates_body_def)
  from tr have re: "run_etl lib cfg load data ''clients'' =
           (case load client_df ''clients'' of
              Inl (SystemExit code) \<Rightarrow> Inl (SystemExit code)
            | Inl e \<Rightarrow> Inl RuntimeError
            | Inr s \<Rightarrow> Inr s)"
    by (simp add: run_etl_def)
  from check_duplicates_exit [OF assms(4) assms(5)] body tr re show ?thesis by simp
qed

theorem duplicate_client_id_reaches_loader_witness:
  "check_duplicates_and_raise clients_expected ''client_id'' = Inl (SystemExit 1) \<and>
   transform sample_library sample_config clients_input ''clients'' = Inr clients_expected \<and>
   run_etl sample_library sample_config (\<lambda>df table. Inr df) clients_input ''clients'' =
     Inr clients_expected"
proof -
  have 1: "process_dict_columns (rename_columns sample_config (json_normalize clients_input) ''clients'')
             [''suppliers'', ''sonar_dates''] = Inr clients_expected"
    by code_simp
  have 2: "select (column_mappings sample_config ''clients'') =
             Some [''client_id'', ''name'', ''contract_start_date'',
                   ''contract_end_date'', ''sonar_dates'', ''suppliers'']"
    by code_simp
  have 3: "getitem_columns clients_expected [''client_id'', ''name'', ''contract_start_date'',
                   ''contract_end_date'', ''sonar_dates'', ''suppliers''] = Inr clients_expected"
    by code_simp
  have 4: "map_of clients_expected ''client_id'' =
             Some [Str ''6086c347701bfd9e246ae133'', Str ''6086c347701bfd9e246ae133'']"
    by code_simp
  have 5: "\<not> distinct (map py_key [Str ''6086c347701bfd9e246ae133'', Str ''6086c347701bfd9e246ae133''])"
    by simp
  from duplicate_client_id_reaches_loader [OF 1 2 3 4 5, of sample_library "\<lambda>df table. Inr df"]
  show ?thesis by simp
qed

text \<open>
  C1 as the specification states it fails on the input of \<^verbatim>\<open>test_transform_clients\<close>:
  the two clients share their id, and the transform returns the table the test expects.
\<close>

theorem duplicate_client_id_counterexample:
  "transform sample_library sample_config clients_input ''clients'' = Inr clients_expected \<and>
   map_of clients_expected ''client_id'' =
     Some [Str ''6086c347701bfd9e246ae133'', Str ''6086c347701bfd9e246ae133'']"
  by code_simp

text \<open>
  C3, as amended. \<^verbatim>\<open>df[keys]\<close> returns the columns \<open>keys\<close> in that order, with
  the values the frame has, when every key is a column; otherwise it raises
  \<^verbatim>\<open>KeyError\<close> naming all keys that are no column. The columns of the normalized
  frame are the keys of any flattened record, and a record without the key holds NaN:
  selection fails only for a column that every record lacks.
\<close>

theorem getitem_columns_spec:
  "(set keys \<subseteq> set (columns df) \<longrightarrow>
      (\<exists>sel. getitem_columns df keys = Inr sel \<and> columns sel = keys \<and>
             (\<forall>k\<in>set keys. map_of sel k = map_of df k))) \<and>
   (\<not> set keys \<subseteq> set (columns df) \<longrightarrow>
      getitem_columns df keys = Inl (KeyError (filter (\<lambda>k. k \<notin> set (columns df)) keys))) \<and>
   set (columns (json_normalize data)) = (\<Union>d\<in>set data. fst ` set (normalise_json_ordered d)) \<and>
   (label \<in> set (columns (json_normalize data)) \<longrightarrow>
      map_of (json_normalize data) label =
        Some (map (\<lambda>d. case map_of (normalise_json_ordered d) label of Some v \<Rightarrow> v | None \<Rightarrow> NaN) data))"
proof (intro conjI impI)
  assume sub: "set keys \<subseteq> set (columns df)"
  let ?sel = "map (\<lambda>k. (k, case map_of df k of Some col \<Rightarrow> col | None \<Rightarrow> [])) keys"
  have a: "getitem_columns df keys = Inr ?sel" by (rule getitem_columns_present [OF sub])
  have b: "columns ?sel = keys" by (simp add: columns_def comp_def)
  have c: "\<forall>k\<in>set keys. map_of ?sel k = map_of df k"
  proof
    fix k assume kin: "k \<in> set keys"
    with sub have "k \<in> fst ` set df" by (auto simp: columns_def)
    then obtain col where "map_of df k = Some col"
      by (metis map_of_eq_None_iff not_Some_eq)
    with kin show "map_of ?sel k = map_of df k" by (simp add: map_of_tabulate)
  qed
  from a b c show "\<exists>sel. getitem_columns df keys = Inr sel \<and> columns sel = keys \<and>
             (\<forall>k\<in>set keys. map_of sel k = map_of df k)" by blast
next
  assume "\<not> set keys \<subseteq> set (columns df)"
  then show "getitem_columns df keys = Inl (KeyError (filter (\<lambda>k. k \<notin> set (columns df)) keys))"
    by (rule getitem_columns_missing)
next
  show "set (columns (json_normalize data)) = (\<Union>d\<in>set data. fst ` set (normalise_json_ordered d))"
    by (simp add: json_normalize_def columns_DataFrame)
next
  assume "label \<in> set (columns (json_normalize data))"
  then show "map_of (json_normalize data) label =
        Some (map (\<lambda>d. case map_of (normalise_json_ordered d) label of Some v \<Rightarrow> v | None \<Rightarrow> NaN) data)"
    by (simp add: json_normalize_def map_of_DataFrame comp_def)
qed

theorem getitem_columns_spec_witness:
  "getitem_columns [(''name'', [Str ''Supplier A'']), (''country'', [Str ''USA''])]
      [''supplier_id'', ''name''] = Inl (KeyError [''supplier_id'']) \<and>
   (\<exists>sel. getitem_columns [(''name'', [Str ''Supplier A'']), (''country'', [Str ''USA''])]
      [''country'', ''name''] = Inr sel \<and> columns sel = [''country'', ''name''])"
  using getitem_columns_spec [of "[''supplier_id'', ''name'']"
          "[(''name'', [Str ''Supplier A'']), (''country'', [Str ''USA''])]" "[]" "''x''"]
        getitem_columns_spec [of "[''country'', ''name'']"
          "[(''name'', [Str ''Supplier A'']), (''country'', [Str ''USA''])]" "[]" "''x''"]
  by (auto simp: columns_def)

text \<open>
  C3 as the specification states it fails: \<^verbatim>\<open>name\<close> is absent from the second record
  and the selection succeeds, with NaN for that record.
\<close>

theorem selection_fills_absent_field_counterexample:
  "getitem_columns
     (json_normalize [[(''supplier_id'', Str ''S1''), (''name'', Str ''A'')], [(''supplier_id'', Str ''S2'')]])
     [''supplier_id'', ''name''] =
   Inr [(''supplier_id'', [Str ''S1'', Str ''S2'']), (''name'', [Str ''A'', NaN])]"
  by code_simp

subsection \<open>The supplier group expansion on documents that all carry their groups\<close>

text \<open>
  Where every document has \<^verbatim>\<open>client_id\<close> and a \<^verbatim>\<open>supplier_groups\<close> that is
  \<^verbatim>\<open>null\<close> or a mapping from group names to lists of \<^verbatim>\<open>$oid\<close> mappings, the rename
  table leaves the two labels alone (as it does on the data of \<^verbatim>\<open>test_etl.py\<close>) and
  there is at least one triple, \<open>transform_supplier_group\<close> returns the table of the
  specification: one row per triple, by document, group and member, and a document
  whose \<^verbatim>\<open>supplier_groups\<close> is empty or \<^verbatim>\<open>null\<close> adds no row. This is the part of
  the expansion the code gets right.
\<close>

lemma transform_supplier_group_rows:
  assumes wf: "list_all wf_document data"
    and r1: "''client_id'' \<notin> fst ` set (rename (column_mappings cfg ''supplier_group'')) \<union>
                             snd ` set (rename (column_mappings cfg ''supplier_group''))"
    and r2: "''supplier_groups'' \<notin> fst ` set (rename (column_mappings cfg ''supplier_group'')) \<union>
                             snd ` set (rename (column_mappings cfg ''supplier_group''))"
    and ne: "expected_rows data \<noteq> []"
  shows "transform_supplier_group cfg data = Inr (rows_frame (expected_rows data)) \<and>
         document_rows (client, Dct []) = Inr [] \<and>
         document_rows (client, PyNone) = Inr []"
proof -
  let ?D = "DataFrame data"
  let ?R = "rename_columns cfg ?D ''supplier_group''"
  define cs where "cs = map (\<lambda>d. cell d ''client_id'') data"
  define gs where "gs = map (\<lambda>d. cell d ''supplier_groups'') data"
  define rowss where "rowss = map (\<lambda>d. map (\<lambda>(g, m). row_of (cell d ''client_id'', g, m))
                       (group_members (cell d ''supplier_groups''))) data"
  define raw where "raw = raw_rows data"
  from ne have data_ne: "data \<noteq> []" by (auto simp: expected_rows_def)
  then obtain d0 where d0: "d0 \<in> set data" by (cases data) auto
  with wf have "wf_document d0" by (simp add: list_all_iff)
  then have "map_of d0 ''client_id'' \<noteq> None" and "map_of d0 ''supplier_groups'' \<noteq> None"
    by (auto simp: wf_document_def split: option.splits)
  then have "''client_id'' \<in> fst ` set d0" and "''supplier_groups'' \<in> fst ` set d0"
    by (simp_all add: map_of_eq_None_iff)
  with d0 have cin: "''client_id'' \<in> set (columns ?D)" and gin: "''supplier_groups'' \<in> set (columns ?D)"
    by (auto simp: columns_DataFrame)
  have Dc: "map_of ?D ''client_id'' = Some cs"
    using cin by (simp add: map_of_DataFrame cell_def cs_def)
  have Dg: "map_of ?D ''supplier_groups'' = Some gs"
    using gin by (simp add: map_of_DataFrame cell_def gs_def)
  have Rc: "map_of ?R ''client_id'' = Some cs"
    using r1 Dc by (simp add: rename_columns_lookup)
  have Rg: "map_of ?R ''supplier_groups'' = Some gs"
    using r2 Dg by (simp add: rename_columns_lookup)
  have sub: "set [''client_id'', ''supplier_groups''] \<subseteq> set (columns ?R)"
    using Rc Rg by (simp add: in_columns_iff)
  have two: "getitem_columns ?R [''client_id'', ''supplier_groups''] =
      Inr [(''client_id'', cs), (''supplier_groups'', gs)]"
    by (simp add: getitem_columns_present [OF sub] Rc Rg)
  have each: "\<forall>d\<in>set data. document_rows (cell d ''client_id'', cell d ''supplier_groups'') =
      Inr (map (\<lambda>(g, m). row_of (cell d ''client_id'', g, m)) (group_members (cell d ''supplier_groups'')))"
  proof
    fix d assume "d \<in> set data"
    with wf have "wf_document d" by (simp add: list_all_iff)
    then have "wf_groups (cell d ''supplier_groups'')"
      by (auto simp: wf_document_def cell_def split: option.splits)
    then show "document_rows (cell d ''client_id'', cell d ''supplier_groups'') =
      Inr (map (\<lambda>(g, m). row_of (cell d ''client_id'', g, m)) (group_members (cell d ''supplier_groups'')))"
      by (rule document_rows_wf)
  qed
  have zip: "zip cs gs = map (\<lambda>d. (cell d ''client_id'', cell d ''supplier_groups'')) data"
    by (simp add: cs_def gs_def zip_map_same)
  have tr: "traverse document_rows (zip cs gs) = Inr rowss"
    unfolding zip rowss_def using each by (rule traverse_map_map)
  have rows: "concat rowss = map row_of raw"
    by (simp add: rowss_def raw_def raw_rows_def map_concat comp_def split_def)
  from ne have raw_ne: "raw \<noteq> []" by (simp add: expected_rows_raw raw_def)
  have out: "DataFrame (map row_of raw) = rows_frame raw"
    by (rule DataFrame_rows [OF raw_ne])
  have final: "setitem ''client_id''
        (map oid_or_none (map (\<lambda>(client, group_name, member). client) raw)) (rows_frame raw) =
      rows_frame (expected_rows data)"
    by (simp only: setitem_rows_frame expected_rows_raw raw_def)
  have "transform_supplier_group cfg data =
      (case traverse document_rows (zip cs gs) of
                Inl e \<Rightarrow> Inl e
              | Inr rs \<Rightarrow>
                  (let out = DataFrame (concat rs) in
                   case map_of out ''client_id'' of
                     None \<Rightarrow> Inl (KeyError [''client_id''])
                   | Some col \<Rightarrow> Inr (setitem ''client_id'' (map oid_or_none col) out)))"
    unfolding transform_supplier_group_def Let_def two by simp
  also have "\<dots> = Inr (setitem ''client_id''
        (map oid_or_none (map (\<lambda>(client, group_name, member). client) raw)) (rows_frame raw))"
    by (simp only: tr sum.case rows out Let_def rows_frame_client option.case)
  finally have main: "transform_supplier_group cfg data = Inr (rows_frame (expected_rows data))"
    by (simp only: final)
  have empty: "document_rows (client, Dct []) = Inr []" "document_rows (client, PyNone) = Inr []"
    by (simp_all add: document_rows_def)
  from main empty show ?thesis by simp
qed

text \<open>The example of the specification, alone and followed by a client without
  groups: three rows in both cases.\<close>

lemma transform_supplier_group_rows_example:
  "transform_supplier_group sample_config [group_example] = Inr group_example_expected \<and>
   transform_supplier_group sample_config [group_example, no_groups_example] =
     Inr group_example_expected"
proof -
  have r1: "''client_id'' \<notin> fst ` set (rename (column_mappings sample_config ''supplier_group'')) \<union>
                             snd ` set (rename (column_mappings sample_config ''supplier_group''))"
    by (simp add: sample_config_def)
  have r2: "''supplier_groups'' \<notin> fst ` set (rename (column_mappings sample_config ''supplier_group'')) \<union>
                             snd ` set (rename (column_mappings sample_config ''supplier_group''))"
    by (simp add: sample_config_def)
  have wf1: "list_all wf_document [group_example]" by code_simp
  have wf2: "list_all wf_document [group_example, no_groups_example]" by code_simp
  have e1: "rows_frame (expected_rows [group_example]) = group_example_expected" by code_simp
  have e2: "rows_frame (expected_rows [group_example, no_groups_example]) = group_example_expected"
    by code_simp
  have ne1: "expected_rows [group_example] \<noteq> []" by code_simp
  have ne2: "expected_rows [group_example, no_groups_example] \<noteq> []" by code_simp
  from transform_supplier_group_rows [OF wf1 r1 r2 ne1, of PyNone]
       transform_supplier_group_rows [OF wf2 r1 r2 ne2, of PyNone]
  show ?thesis by (simp add: e1 e2)
qed

text \<open>
  C2. The specification gives a document whose \<^verbatim>\<open>supplier_groups\<close> is empty or
  absent zero rows, and every document set a table. The code does not: where the
  second document has no \<^verbatim>\<open>supplier_groups\<close>, its cell in the frame is NaN, which is
  true for \<^verbatim>\<open>if supplier_groups:\<close>, and \<^verbatim>\<open>.items()\<close> raises \<^verbatim>\<open>AttributeError\<close>
  although the specification's table for this set has the three rows of the first
  document; and where no document has a group, the frame of the rows has no
  \<^verbatim>\<open>client_id\<close> column and line 126 raises \<^verbatim>\<open>KeyError\<close> where the specification has
  the empty table.
\<close>

theorem transform_supplier_group_absent_or_empty:
  "transform_supplier_group sample_config
     [group_example, [(''client_id'', Dct [(''$oid'', Str ''C2'')])]] = Inl AttributeError \<and>
   rows_frame (expected_rows [group_example, [(''client_id'', Dct [(''$oid'', Str ''C2'')])]]) =
     group_example_expected \<and>
   transform_supplier_group sample_config [no_groups_example] = Inl (KeyError [''client_id'']) \<and>
   expected_rows [no_groups_example] = []"
  by code_simp

end
